theory Spec2Isabelle
  imports Complex_Main "HOL-Library.Multiset" "HOL-Library.Sublist" "HOL-Library.Log_Nat"
begin

section \<open>Domain model\<close>

text \<open>
  The declarations of \<^verbatim>\<open>types.ts\<close> are not among the sources; the enumerations below
  list the members the sources use (\<^verbatim>\<open>Entity.LONDON\<close>, \<^verbatim>\<open>ContractStatus.DRAFT\<close>,
  \<^verbatim>\<open>RiskCategory.FINANCIAL\<close>, the literals \<^verbatim>\<open>'CAPEX'\<close> and \<^verbatim>\<open>'OPEX'\<close>).

  An amount and a timestamp are whole numbers (\<^typ>\<open>int\<close>), as every amount of the
  fixtures is; they stand for the JavaScript \<^verbatim>\<open>number\<close> of that value. A number with a
  fractional part, an infinity or a NaN as an amount is outside this model. Comparing two
  numbers compares their values, and timestamps are only compared.
\<close>

datatype Entity = LONDON | BRAZIL | CONGO | EQUATORIAL_GUINEA

datatype ContractStatus =
  DRAFT | SUBMITTED | PENDING_CEO | CHANGES_REQUESTED | APPROVED | REJECTED

datatype RiskCategory = FINANCIAL | LEGAL | OPERATIONAL | THIRD_PARTY | ENVIRONMENTAL

datatype ContractType = CAPEX | OPEX

subsection \<open>Adding numbers\<close>

text \<open>
  A \<^verbatim>\<open>number\<close> is an IEEE 754 double, and \<^verbatim>\<open>a + b\<close> is the exact sum rounded to the
  nearest double, to the even one of two nearest. Every whole number of magnitude up to
  \<open>2^53\<close> is a double. A larger one keeps 53 significant bits: with \<open>ulp\<close> the weight
  of the last of them, the sum is rounded to a multiple of \<open>ulp\<close>; a result of magnitude
  \<open>2^1024\<close> or more is an infinity. A running total is a whole number or an infinity;
  an amount is taken to be a whole number that is a double.
\<close>

datatype Number = Num int | Infinity | NegInfinity

definition roundToDouble :: "int \<Rightarrow> Number" where
  "roundToDouble x =
     (let m = \<bar>x\<bar>
      in if m \<le> 2 ^ 53 then Num x
         else (let ulp = 2 ^ nat (bitlen m - 53);
                   q = m div ulp;
                   r = m mod ulp;
                   q' = (if 2 * r > ulp \<or> (2 * r = ulp \<and> odd q) then q + 1 else q)
               in if q' * ulp \<ge> 2 ^ 1024 then (if x < 0 then NegInfinity else Infinity)
                  else Num (sgn x * (q' * ulp))))"

text \<open>\<^verbatim>\<open>acc + c.amount\<close>, for a running total \<open>acc\<close> and an amount.\<close>

fun addNumber :: "Number \<Rightarrow> int \<Rightarrow> Number" where
  "addNumber (Num a) b = roundToDouble (a + b)"
| "addNumber Infinity b = Infinity"
| "addNumber NegInfinity b = NegInfinity"

record RiskTrigger =
  trigger_id :: string
  category :: RiskCategory
  description :: string
  triggered :: bool

text \<open>
  \<^verbatim>\<open>ContractData\<close>, with the fields that the functions of this development read or
  compute. The other fields that \<^verbatim>\<open>createMockContract\<close> fills (department, currency,
  dates, evaluation summaries, audit trail, comments, reviews, documents, approvals, due
  diligence data) are constants there and are read by no function modelled here.
  \<^verbatim>\<open>submissionDate\<close> is optional: the dashboard reads it as \<^verbatim>\<open>a.submissionDate || 0\<close>.
\<close>

record ContractData =
  contract_id :: string
  entity :: Entity
  contractorName :: string
  contractType :: ContractType
  amount :: int
  scopeOfWork :: string
  status :: ContractStatus
  submitterId :: string
  submissionDate :: "int option"
  detectedTriggers :: "RiskTrigger list"
  isHighRisk :: bool

section \<open>String helpers\<close>

text \<open>
  \<^verbatim>\<open>String.prototype.toLowerCase\<close> is a built-in of the platform, not code of this
  repository: it follows the Unicode case mappings and does not work character by
  character. Every function that calls it takes it as its first argument \<open>toLowerCase\<close>,
  and what is proved holds for every such function. A string is a list of characters;
  nothing below gives a meaning to a character outside ASCII.
\<close>

text \<open>\<^verbatim>\<open>s.startsWith(t)\<close> and \<^verbatim>\<open>s.includes(t)\<close>: \<open>t\<close> occurs in \<open>s\<close> as a contiguous run.\<close>

fun startsWith :: "string \<Rightarrow> string \<Rightarrow> bool" where
  "startsWith s [] = True"
| "startsWith [] (d # t) = False"
| "startsWith (c # s) (d # t) = (c = d \<and> startsWith s t)"

fun includes_str :: "string \<Rightarrow> string \<Rightarrow> bool" where
  "includes_str [] t = (t = [])"
| "includes_str (c # s) t = (startsWith (c # s) t \<or> includes_str s t)"

section \<open>Contract creation (constants.ts)\<close>

text \<open>
  The block of \<^verbatim>\<open>createMockContract\<close> between \<^verbatim>\<open>const detectedTriggers = []\<close> and
  \<^verbatim>\<open>const isHighRisk\<close>: two guarded \<^verbatim>\<open>push\<close> calls on an initially empty array. It
  reads the two variables \<^verbatim>\<open>contractType\<close> and \<^verbatim>\<open>amount\<close> only.
\<close>

definition trigger_t1 :: RiskTrigger where
  "trigger_t1 = \<lparr>trigger_id = ''t1'', category = FINANCIAL,
     description = ''OPEX > USD 1M'', triggered = True\<rparr>"

definition trigger_t2 :: RiskTrigger where
  "trigger_t2 = \<lparr>trigger_id = ''t2'', category = FINANCIAL,
     description = ''CAPEX > USD 5M'', triggered = True\<rparr>"

definition riskLogic :: "ContractType \<Rightarrow> int \<Rightarrow> RiskTrigger list" where
  "riskLogic ctype amt =
     (let detected = [];
          detected = (if ctype = OPEX \<and> amt > 1000000 then detected @ [trigger_t1]
                      else detected);
          detected = (if ctype = CAPEX \<and> amt > 5000000 then detected @ [trigger_t2]
                      else detected)
      in detected)"

text \<open>
  \<^verbatim>\<open>createMockContract(id, entity, status, amount, title)\<close>. The argument
  \<open>submitted\<close> stands for the value of \<^verbatim>\<open>Date.now() - Math.random() * 1000000000\<close>,
  which the function reads from its environment.
\<close>

definition createMockContract ::
  "(string \<Rightarrow> string) \<Rightarrow> int \<Rightarrow> string \<Rightarrow> Entity \<Rightarrow> ContractStatus \<Rightarrow> int \<Rightarrow> string
     \<Rightarrow> ContractData" where
  "createMockContract toLowerCase submitted ident ent st amt title =
     (let ctype = (if amt > 5000000 then CAPEX else OPEX);
          detected = riskLogic ctype amt;
          highRisk = (length detected > 0)
      in \<lparr>contract_id = ident,
          entity = ent,
          contractorName = title,
          contractType = ctype,
          amount = amt,
          scopeOfWork = ''Provision of '' @ toLowerCase title @ '' services.'',
          status = st,
          submitterId = ''u1'',
          submissionDate = Some submitted,
          detectedTriggers = detected,
          isHighRisk = highRisk\<rparr>)"

text \<open>
  \<^verbatim>\<open>MOCK_CONTRACTS\<close>: two contracts written out in full and twenty made by
  \<^verbatim>\<open>createMockContract\<close>. \<open>now\<close> is the value of \<^verbatim>\<open>Date.now()\<close>; \<open>rnd k\<close> is the value
  of \<^verbatim>\<open>Math.random() * 1000000000\<close> in the \<open>k\<close>-th call.
\<close>

definition MOCK_CONTRACTS ::
  "(string \<Rightarrow> string) \<Rightarrow> int \<Rightarrow> (nat \<Rightarrow> int) \<Rightarrow> ContractData list" where
  "MOCK_CONTRACTS toLowerCase now rnd =
    [\<lparr>contract_id = ''CNT-2023-001'', entity = BRAZIL, contractorName = ''DeepSea Solutions'',
      contractType = CAPEX, amount = 12000000,
      scopeOfWork = ''Provision of deepwater drilling rig support services.'',
      status = PENDING_CEO, submitterId = ''u1'', submissionDate = Some (now - 172800000),
      detectedTriggers = [trigger_t2], isHighRisk = True\<rparr>,
     \<lparr>contract_id = ''CNT-2023-002'', entity = CONGO, contractorName = ''Local Transport Co'',
      contractType = OPEX, amount = 800000,
      scopeOfWork = ''Logistics support.'',
      status = SUBMITTED, submitterId = ''u1'', submissionDate = Some (now - 3600000),
      detectedTriggers = [], isHighRisk = False\<rparr>,
     createMockContract toLowerCase (now - rnd 0) ''CNT-2023-003'' BRAZIL APPROVED 15000000 ''FPSO Maintenance'',
     createMockContract toLowerCase (now - rnd 1) ''CNT-2023-004'' BRAZIL SUBMITTED 8000000 ''Support Vessel Charter'',
     createMockContract toLowerCase (now - rnd 2) ''CNT-2023-005'' BRAZIL REJECTED 2000000 ''Offshore Catering'',
     createMockContract toLowerCase (now - rnd 3) ''CNT-2023-006'' BRAZIL DRAFT 500000 ''Waste Management'',
     createMockContract toLowerCase (now - rnd 4) ''CNT-2023-007'' BRAZIL PENDING_CEO 45000000 ''Subsea Tree Installation'',
     createMockContract toLowerCase (now - rnd 5) ''CNT-2023-008'' CONGO APPROVED 1200000 ''Road Maintenance'',
     createMockContract toLowerCase (now - rnd 6) ''CNT-2023-009'' CONGO PENDING_CEO 3000000 ''Site Security Services'',
     createMockContract toLowerCase (now - rnd 7) ''CNT-2023-010'' CONGO CHANGES_REQUESTED 5000000 ''Base Camp Construction'',
     createMockContract toLowerCase (now - rnd 8) ''CNT-2023-011'' CONGO SUBMITTED 800000 ''Diesel Supply'',
     createMockContract toLowerCase (now - rnd 9) ''CNT-2023-012'' CONGO APPROVED 600000 ''Medical Services'',
     createMockContract toLowerCase (now - rnd 10) ''CNT-2023-013'' EQUATORIAL_GUINEA PENDING_CEO 12000000 ''Gas Turbine Overhaul'',
     createMockContract toLowerCase (now - rnd 11) ''CNT-2023-014'' EQUATORIAL_GUINEA APPROVED 1500000 ''Scaffolding Services'',
     createMockContract toLowerCase (now - rnd 12) ''CNT-2023-015'' EQUATORIAL_GUINEA SUBMITTED 900000 ''Paint & Blast'',
     createMockContract toLowerCase (now - rnd 13) ''CNT-2023-016'' EQUATORIAL_GUINEA DRAFT 300000 ''Valve Supply'',
     createMockContract toLowerCase (now - rnd 14) ''CNT-2023-017'' EQUATORIAL_GUINEA REJECTED 2000000 ''Crane Rental'',
     createMockContract toLowerCase (now - rnd 15) ''CNT-2023-018'' LONDON PENDING_CEO 5000000 ''ERP License Renewal'',
     createMockContract toLowerCase (now - rnd 16) ''CNT-2023-019'' LONDON APPROVED 1000000 ''Global Audit Services'',
     createMockContract toLowerCase (now - rnd 17) ''CNT-2023-020'' LONDON SUBMITTED 2000000 ''Legal Counsel Retainer'',
     createMockContract toLowerCase (now - rnd 18) ''CNT-2023-021'' LONDON PENDING_CEO 8000000 ''New Office Lease'',
     createMockContract toLowerCase (now - rnd 19) ''CNT-2023-022'' LONDON CHANGES_REQUESTED 1500000 ''IT Infrastructure Support'']"

section \<open>Dashboard (Dashboard.tsx)\<close>

subsection \<open>Component state\<close>

text \<open>
  The \<^verbatim>\<open>useState\<close> cells of the component. \<^verbatim>\<open>selectedEntity\<close> and \<^verbatim>\<open>selectedStatus\<close>
  are strings in the source (\<^verbatim>\<open>'ALL'\<close>, \<^verbatim>\<open>'REVIEW'\<close>, a flag label, a status value).
\<close>

datatype SortOrder = Asc | Desc

record DashboardState =
  selectedEntity :: string
  selectedStatus :: string
  isHighRiskFilter :: bool
  searchTerm :: string
  sortOrder :: SortOrder
  currentPage :: int
  itemsPerPage :: int

definition initialState :: DashboardState where
  "initialState = \<lparr>selectedEntity = ''ALL'', selectedStatus = ''ALL'',
     isHighRiskFilter = False, searchTerm = [], sortOrder = Desc,
     currentPage = 1, itemsPerPage = 25\<rparr>"

text \<open>
  Modelled from the spec: the string values of the \<^verbatim>\<open>ContractStatus\<close> enum, whose
  declaration (\<^verbatim>\<open>types.ts\<close>) is missing. The dashboard compares \<^verbatim>\<open>c.status\<close> with the
  string \<^verbatim>\<open>selectedStatus\<close>; the spec names the six states Draft, Submitted,
  PendingCEO, ChangesRequested, Approved and Rejected.
\<close>

primrec ContractStatus_value :: "ContractStatus \<Rightarrow> string" where
  "ContractStatus_value DRAFT = ''Draft''"
| "ContractStatus_value SUBMITTED = ''Submitted''"
| "ContractStatus_value PENDING_CEO = ''PendingCEO''"
| "ContractStatus_value CHANGES_REQUESTED = ''ChangesRequested''"
| "ContractStatus_value APPROVED = ''Approved''"
| "ContractStatus_value REJECTED = ''Rejected''"

subsection \<open>Filtering and sorting\<close>

text \<open>
  The predicate both entity filters pass to \<^verbatim>\<open>Array.prototype.filter\<close>: a chain of
  conditionals on the selected label whose last branch is Equatorial Guinea.
\<close>

definition entityPredicate :: "string \<Rightarrow> ContractData \<Rightarrow> bool" where
  "entityPredicate sel c =
     (if sel = ''London'' then entity c = LONDON
      else if sel = ''Brazil'' then entity c = BRAZIL
      else if sel = ''Congo'' then entity c = CONGO
      else entity c = EQUATORIAL_GUINEA)"

definition searchPredicate :: "(string \<Rightarrow> string) \<Rightarrow> string \<Rightarrow> ContractData \<Rightarrow> bool" where
  "searchPredicate toLowerCase lower c =
     (includes_str (toLowerCase (contractorName c)) lower
      \<or> includes_str (toLowerCase (contract_id c)) lower
      \<or> includes_str (toLowerCase (scopeOfWork c)) lower)"

text \<open>The four filter steps of \<^verbatim>\<open>filteredContracts\<close>, in the order of the source.\<close>

definition applyFilters ::
  "(string \<Rightarrow> string) \<Rightarrow> DashboardState \<Rightarrow> ContractData list \<Rightarrow> ContractData list" where
  "applyFilters toLowerCase st contracts =
     (let data = contracts;
          data = (if selectedEntity st \<noteq> ''ALL''
                  then filter (entityPredicate (selectedEntity st)) data else data);
          data = (if selectedStatus st = ''REVIEW''
                  then filter (\<lambda>c. status c = SUBMITTED \<or> status c = PENDING_CEO) data
                  else if selectedStatus st \<noteq> ''ALL''
                  then filter (\<lambda>c. ContractStatus_value (status c) = selectedStatus st) data
                  else data);
          data = (if isHighRiskFilter st then filter (\<lambda>c. isHighRisk c) data else data);
          data = (if searchTerm st \<noteq> []
                  then (let lower = toLowerCase (searchTerm st)
                        in filter (searchPredicate toLowerCase lower) data)
                  else data)
      in data)"

text \<open>
  \<^verbatim>\<open>Array.prototype.sort(compare)\<close> is library code; ECMAScript requires it to be stable.
  It is modelled as the stable insertion sort: an element goes in front of the first
  element that it does not compare greater than, and elements are inserted from the last
  to the first.
\<close>

fun insert_sorted :: "('a \<Rightarrow> 'a \<Rightarrow> int) \<Rightarrow> 'a \<Rightarrow> 'a list \<Rightarrow> 'a list" where
  "insert_sorted cmp x [] = [x]"
| "insert_sorted cmp x (y # ys) =
     (if cmp x y \<le> 0 then x # y # ys else y # insert_sorted cmp x ys)"

definition array_sort :: "('a \<Rightarrow> 'a \<Rightarrow> int) \<Rightarrow> 'a list \<Rightarrow> 'a list" where
  "array_sort cmp xs = foldr (insert_sorted cmp) xs []"

text \<open>\<^verbatim>\<open>c.submissionDate || 0\<close>: a missing date, and the date 0, read as 0.\<close>

definition dateOrZero :: "ContractData \<Rightarrow> int" where
  "dateOrZero c = (case submissionDate c of None \<Rightarrow> 0 | Some d \<Rightarrow> d)"

definition compareDates :: "SortOrder \<Rightarrow> ContractData \<Rightarrow> ContractData \<Rightarrow> int" where
  "compareDates ord a b =
     (let dateA = dateOrZero a; dateB = dateOrZero b
      in if ord = Asc then dateA - dateB else dateB - dateA)"

definition filteredContracts ::
  "(string \<Rightarrow> string) \<Rightarrow> DashboardState \<Rightarrow> ContractData list \<Rightarrow> ContractData list" where
  "filteredContracts toLowerCase st contracts =
     array_sort (compareDates (sortOrder st)) (applyFilters toLowerCase st contracts)"

subsection \<open>Metrics\<close>

definition kpiBaseContracts :: "DashboardState \<Rightarrow> ContractData list \<Rightarrow> ContractData list" where
  "kpiBaseContracts st contracts =
     (if selectedEntity st = ''ALL'' then contracts
      else filter (entityPredicate (selectedEntity st)) contracts)"

text \<open>\<^verbatim>\<open>xs.reduce((acc, c) => acc + c.amount, 0)\<close>.\<close>

definition sumAmount :: "ContractData list \<Rightarrow> Number" where
  "sumAmount xs = foldl (\<lambda>acc c. addNumber acc (amount c)) (Num 0) xs"

definition countStatus :: "ContractStatus \<Rightarrow> ContractData list \<Rightarrow> nat" where
  "countStatus s xs = length (filter (\<lambda>c. status c = s) xs)"

text \<open>
  The object \<^verbatim>\<open>metrics\<close> returns. The chart rows \<^verbatim>\<open>{name, value}\<close> are pairs; the name of
  a status row is the enum member.
\<close>

record Metrics =
  pending :: nat
  totalValue :: Number
  highRisk :: nat
  avgDays :: real
  statusData :: "(ContractStatus \<times> nat) list"
  spendData :: "(string \<times> Number) list"

definition metrics :: "DashboardState \<Rightarrow> ContractData list \<Rightarrow> Metrics" where
  "metrics st contracts =
     (let base = kpiBaseContracts st contracts
      in \<lparr>pending =
            length (filter (\<lambda>c. status c = SUBMITTED \<or> status c = PENDING_CEO) base),
          totalValue = sumAmount base,
          highRisk = length (filter (\<lambda>c. isHighRisk c) base),
          avgDays = (if length base > 0 then 5 / 2 else 0),
          statusData =
            filter (\<lambda>d. snd d > 0)
              [(SUBMITTED, countStatus SUBMITTED base),
               (PENDING_CEO, countStatus PENDING_CEO base),
               (APPROVED, countStatus APPROVED base),
               (REJECTED, countStatus REJECTED base)],
          spendData =
            [(''London'', sumAmount (filter (\<lambda>c. entity c = LONDON) base)),
             (''Brazil'', sumAmount (filter (\<lambda>c. entity c = BRAZIL) base)),
             (''Congo'', sumAmount (filter (\<lambda>c. entity c = CONGO) base)),
             (''Eq. Guinea'', sumAmount (filter (\<lambda>c. entity c = EQUATORIAL_GUINEA) base))]\<rparr>)"

subsection \<open>Event handlers and the pagination effect\<close>

datatype KPIType = PENDING | VALUE | RISK | AVG

text \<open>
  The user actions that write a filter, the sort order or the page size: a flag button,
  a KPI card, a slice of the status chart, the search box, the status select, the date
  column header and the rows-per-page select.
\<close>

datatype Event =
    FlagButtonClick string
  | KPIClick KPIType
  | PieClick ContractStatus
  | SearchChange string
  | StatusSelectChange string
  | ToggleSortOrder
  | ItemsPerPageChange int

fun handleKPIClick :: "KPIType \<Rightarrow> DashboardState \<Rightarrow> DashboardState" where
  "handleKPIClick PENDING st = st\<lparr>selectedStatus := ''REVIEW'', isHighRiskFilter := False\<rparr>"
| "handleKPIClick RISK st = st\<lparr>selectedStatus := ''ALL'', isHighRiskFilter := True\<rparr>"
| "handleKPIClick k st = st\<lparr>selectedStatus := ''ALL'', isHighRiskFilter := False\<rparr>"

fun handler :: "Event \<Rightarrow> DashboardState \<Rightarrow> DashboardState" where
  "handler (FlagButtonClick label) st =
     st\<lparr>selectedEntity := (if selectedEntity st = label then ''ALL'' else label)\<rparr>"
| "handler (KPIClick k) st = handleKPIClick k st"
| "handler (PieClick name) st =
     st\<lparr>selectedStatus := ContractStatus_value name, isHighRiskFilter := False\<rparr>"
| "handler (SearchChange v) st = st\<lparr>searchTerm := v\<rparr>"
| "handler (StatusSelectChange v) st = st\<lparr>selectedStatus := v\<rparr>"
| "handler ToggleSortOrder st =
     st\<lparr>sortOrder := (if sortOrder st = Asc then Desc else Asc)\<rparr>"
| "handler (ItemsPerPageChange n) st = st\<lparr>itemsPerPage := n\<rparr>"

text \<open>
  \<^verbatim>\<open>useEffect(() => setCurrentPage(1), [selectedEntity, selectedStatus, searchTerm,
  itemsPerPage, isHighRiskFilter])\<close>: after a render React runs the effect when one of
  the listed values differs from its value at the render before.
\<close>

definition effectDeps :: "DashboardState \<Rightarrow> string \<times> string \<times> string \<times> int \<times> bool" where
  "effectDeps st =
     (selectedEntity st, selectedStatus st, searchTerm st, itemsPerPage st, isHighRiskFilter st)"

definition paginationEffect :: "DashboardState \<Rightarrow> DashboardState \<Rightarrow> DashboardState" where
  "paginationEffect prev next =
     (if effectDeps next \<noteq> effectDeps prev then next\<lparr>currentPage := 1\<rparr> else next)"

definition dispatch :: "DashboardState \<Rightarrow> Event \<Rightarrow> DashboardState" where
  "dispatch st ev = paginationEffect st (handler ev st)"

section \<open>AI text assistant (geminiService.ts)\<close>

text \<open>
  The Gemini client is an external collaborator: constructing it or calling
  \<^verbatim>\<open>generateContent\<close> either throws or returns a response whose \<^verbatim>\<open>text\<close> may be
  undefined. It is a parameter of the model, a function from the API key and the request
  to that outcome. The prompt is a template over the request's data, so the request
  carries the data.
\<close>

datatype error = GeminiError string

datatype RefineContext = Scope | Background

datatype Request = AnalysisPrompt ContractData | RefinePrompt string RefineContext

type_synonym GenAI = "string \<Rightarrow> Request \<Rightarrow> error + string option"

text \<open>\<^verbatim>\<open>process.env.API_KEY || ''\<close>: an unset variable reads as the empty string.\<close>

definition getApiKey :: "string option \<Rightarrow> string" where
  "getApiKey env = (case env of None \<Rightarrow> [] | Some k \<Rightarrow> k)"

text \<open>\<^verbatim>\<open>response.text || fallback\<close>: undefined and the empty string are falsy.\<close>

definition textOr :: "string option \<Rightarrow> string \<Rightarrow> string" where
  "textOr response fallback =
     (case response of None \<Rightarrow> fallback | Some t \<Rightarrow> if t = [] then fallback else t)"

text \<open>\<^verbatim>\<open>try { body } catch (error) { handler }\<close>, with a thrown exception as \<open>Inl\<close>.\<close>

definition tryCatch :: "error + 'a \<Rightarrow> (error \<Rightarrow> error + 'a) \<Rightarrow> error + 'a" where
  "tryCatch body handle = (case body of Inl e \<Rightarrow> handle e | Inr v \<Rightarrow> Inr v)"

definition analyzeContractRisks :: "string option \<Rightarrow> GenAI \<Rightarrow> ContractData \<Rightarrow> error + string" where
  "analyzeContractRisks env ai contract =
     (let apiKey = getApiKey env
      in if apiKey = [] then Inr ''API Key not configured. Unable to perform AI analysis.''
         else tryCatch
           (case ai apiKey (AnalysisPrompt contract) of
              Inl e \<Rightarrow> Inl e
            | Inr response \<Rightarrow> Inr (textOr response ''No analysis generated.''))
           (\<lambda>e. Inr ''Error generating AI analysis. Please review manually.''))"

definition refineContractText ::
  "string option \<Rightarrow> GenAI \<Rightarrow> string \<Rightarrow> RefineContext \<Rightarrow> error + string" where
  "refineContractText env ai txt context =
     (let apiKey = getApiKey env
      in if apiKey = [] \<or> txt = [] \<or> length txt < 5 then Inr txt
         else tryCatch
           (case ai apiKey (RefinePrompt txt context) of
              Inl e \<Rightarrow> Inl e
            | Inr response \<Rightarrow> Inr (textOr response txt))
           (\<lambda>e. Inr txt))"

section \<open>Notions of the specification, and sample data\<close>

text \<open>The label of the flag button that selects an entity.\<close>

definition entityLabel :: "Entity \<Rightarrow> string" where
  "entityLabel e =
     (case e of LONDON \<Rightarrow> ''London'' | BRAZIL \<Rightarrow> ''Brazil'' | CONGO \<Rightarrow> ''Congo''
      | EQUATORIAL_GUINEA \<Rightarrow> ''Equatorial Guinea'')"

subsection \<open>States the dashboard can be in\<close>




subsection \<open>Containment up to letter case\<close>

text \<open>
  The two forms of each ASCII letter, as a table; two characters are the same letter
  when they are equal or the two forms of one letter. A field contains a term
  case-insensitively when some contiguous part of the field matches the term character by
  character up to letter case. None of this refers to a lower-casing function.
\<close>

definition letterCases :: "(char \<times> char) list" where
  "letterCases = zip ''ABCDEFGHIJKLMNOPQRSTUVWXYZ'' ''abcdefghijklmnopqrstuvwxyz''"



text \<open>
  What is assumed of the platform's \<^verbatim>\<open>toLowerCase\<close>: on a string of ASCII characters it
  replaces each capital letter by its small form and changes nothing else.
\<close>

definition asciiLowerChar :: "char \<Rightarrow> char" where
  "asciiLowerChar c = (case map_of letterCases c of None \<Rightarrow> c | Some l \<Rightarrow> l)"

definition asciiLowerCase :: "string \<Rightarrow> string" where
  "asciiLowerCase s = map asciiLowerChar s"





subsection \<open>The filter of the specification\<close>


text \<open>The conjunction of the predicates that the filter steps of the source apply.\<close>

definition keepsContract :: "(string \<Rightarrow> string) \<Rightarrow> DashboardState \<Rightarrow> ContractData \<Rightarrow> bool" where
  "keepsContract toLowerCase st c =
     ((selectedEntity st \<noteq> ''ALL'' \<longrightarrow> entityPredicate (selectedEntity st) c)
      \<and> (if selectedStatus st = ''REVIEW'' then status c = SUBMITTED \<or> status c = PENDING_CEO
          else if selectedStatus st \<noteq> ''ALL''
          then ContractStatus_value (status c) = selectedStatus st
          else True)
      \<and> (isHighRiskFilter st \<longrightarrow> isHighRisk c)
      \<and> (searchTerm st \<noteq> [] \<longrightarrow>
            searchPredicate toLowerCase (toLowerCase (searchTerm st)) c))"

subsection \<open>Sums and counts\<close>

definition entitySum :: "Entity \<Rightarrow> ContractData list \<Rightarrow> int" where
  "entitySum e cs = sum_list (map amount (filter (\<lambda>c. entity c = e) cs))"

text \<open>The sum of the magnitudes of the amounts: a bound on every partial sum.\<close>

definition amountMagnitude :: "ContractData list \<Rightarrow> int" where
  "amountMagnitude cs = sum_list (map (\<lambda>c. \<bar>amount c\<bar>) cs)"

definition underReview :: "ContractData \<Rightarrow> bool" where
  "underReview c = (status c = SUBMITTED \<or> status c = PENDING_CEO)"

text \<open>The rows of the status chart that carry a given status.\<close>

definition bucketsOf ::
  "ContractStatus \<Rightarrow> (ContractStatus \<times> nat) list \<Rightarrow> (ContractStatus \<times> nat) list" where
  "bucketsOf s rows = filter (\<lambda>row. fst row = s) rows"

subsection \<open>Concrete inputs for the examples below\<close>

definition fixedRandom :: "nat \<Rightarrow> int" where
  "fixedRandom k = 1000 * int k"

definition sampleContract ::
  "string \<Rightarrow> Entity \<Rightarrow> ContractStatus \<Rightarrow> int \<Rightarrow> int option \<Rightarrow> ContractData" where
  "sampleContract i e s a d =
     \<lparr>contract_id = i, entity = e, contractorName = ''Acme Drilling'',
      contractType = OPEX, amount = a, scopeOfWork = ''Rig support'', status = s,
      submitterId = ''u1'', submissionDate = d, detectedTriggers = [], isHighRisk = False\<rparr>"

definition sampleContracts :: "ContractData list" where
  "sampleContracts =
     [sampleContract ''CNT-1'' BRAZIL DRAFT 10 (Some 5),
      sampleContract ''CNT-2'' CONGO SUBMITTED 20 (Some 3),
      sampleContract ''CNT-3'' BRAZIL APPROVED 30 (Some 5),
      sampleContract ''CNT-4'' BRAZIL SUBMITTED 40 None,
      sampleContract ''CNT-5'' LONDON SUBMITTED 50 (Some 9)]"



definition roundingSamples :: "ContractData list" where
  "roundingSamples =
     [sampleContract ''CNT-1'' LONDON APPROVED 9007199254740992 None,
      sampleContract ''CNT-2'' BRAZIL APPROVED 1 None,
      sampleContract ''CNT-3'' BRAZIL APPROVED 1 None]"


definition brazilState :: DashboardState where
  "brazilState = initialState\<lparr>selectedEntity := ''Brazil''\<rparr>"



definition descState :: DashboardState where
  "descState = initialState\<lparr>sortOrder := Desc\<rparr>"

definition ascState :: DashboardState where
  "ascState = initialState\<lparr>sortOrder := Asc\<rparr>"

definition reviewState :: DashboardState where
  "reviewState = initialState\<lparr>selectedStatus := ''REVIEW'', isHighRiskFilter := True,
     searchTerm := ''rig'', sortOrder := Asc, currentPage := 2\<rparr>"

definition pageThree :: DashboardState where
  "pageThree = initialState\<lparr>currentPage := 3\<rparr>"

definition failingAI :: GenAI where
  "failingAI key request = Inl (GeminiError ''503 Service Unavailable'')"

definition draftContract :: ContractData where
  "draftContract =
     createMockContract asciiLowerCase 0 ''CNT-2023-006'' BRAZIL DRAFT 500000 ''Waste Management''"

section \<open>Risk evaluation at contract creation\<close>

lemma riskLogic_cases:
  "riskLogic ctype amt =
     (if ctype = OPEX \<and> amt > 1000000 then [trigger_t1]
      else if ctype = CAPEX \<and> amt > 5000000 then [trigger_t2] else [])"
  by (cases ctype) (simp_all add: riskLogic_def)

lemma trigger_t1_neq_t2: "trigger_t1 \<noteq> trigger_t2"
  by (simp add: trigger_t1_def trigger_t2_def)

lemma createMockContract_fields:
  "contractType (createMockContract toLowerCase sub i e s a t) = (if a > 5000000 then CAPEX else OPEX)"
  "detectedTriggers (createMockContract toLowerCase sub i e s a t) =
     riskLogic (if a > 5000000 then CAPEX else OPEX) a"
  "isHighRisk (createMockContract toLowerCase sub i e s a t) =
     (length (riskLogic (if a > 5000000 then CAPEX else OPEX) a) > 0)"
  "amount (createMockContract toLowerCase sub i e s a t) = a"
  "entity (createMockContract toLowerCase sub i e s a t) = e"
  "status (createMockContract toLowerCase sub i e s a t) = s"
  "contract_id (createMockContract toLowerCase sub i e s a t) = i"
  "contractorName (createMockContract toLowerCase sub i e s a t) = t"
  "submissionDate (createMockContract toLowerCase sub i e s a t) = Some sub"
  by (simp_all add: createMockContract_def Let_def)

lemma createMockContract_highRisk_triggers:
  "isHighRisk (createMockContract toLowerCase sub i e s a t) =
     (length (detectedTriggers (createMockContract toLowerCase sub i e s a t)) > 0)"
  by (simp add: createMockContract_fields)

text \<open>
  C1. Every contract that \<^verbatim>\<open>createMockContract\<close> returns, and every contract of the
  collection \<^verbatim>\<open>MOCK_CONTRACTS\<close> (whatever the clock and the random numbers were), has
  \<open>isHighRisk\<close> true exactly when \<open>detectedTriggers\<close> is non-empty
  (\<^verbatim>\<open>detectedTriggers.length > 0\<close>).
\<close>

theorem isHighRisk_iff_detectedTriggers:
  "isHighRisk (createMockContract toLowerCase sub i e s a t) =
     (length (detectedTriggers (createMockContract toLowerCase sub i e s a t)) > 0)
   \<and> (\<forall>c \<in> set (MOCK_CONTRACTS toLowerCase now rnd). isHighRisk c = (length (detectedTriggers c) > 0))"
proof
  show "isHighRisk (createMockContract toLowerCase sub i e s a t) =
     (length (detectedTriggers (createMockContract toLowerCase sub i e s a t)) > 0)"
    by (rule createMockContract_highRisk_triggers)
next
  show "\<forall>c \<in> set (MOCK_CONTRACTS toLowerCase now rnd). isHighRisk c = (length (detectedTriggers c) > 0)"
    unfolding MOCK_CONTRACTS_def
    by (simp add: createMockContract_highRisk_triggers)
qed

theorem isHighRisk_iff_detectedTriggers_witness:
  "isHighRisk (createMockContract asciiLowerCase 7 ''CNT-X'' BRAZIL DRAFT 2000000 ''Pumps'')
   \<and> detectedTriggers (createMockContract asciiLowerCase 7 ''CNT-X'' BRAZIL DRAFT 2000000 ''Pumps'') = [trigger_t1]
   \<and> \<not> isHighRisk (MOCK_CONTRACTS asciiLowerCase 0 (\<lambda>k. 0) ! 1)
   \<and> detectedTriggers (MOCK_CONTRACTS asciiLowerCase 0 (\<lambda>k. 0) ! 1) = []"
proof -
  have mem: "MOCK_CONTRACTS asciiLowerCase 0 (\<lambda>k. 0) ! 1 \<in> set (MOCK_CONTRACTS asciiLowerCase 0 (\<lambda>k. 0))"
    by (rule nth_mem) (simp add: MOCK_CONTRACTS_def)
  have trig: "detectedTriggers (MOCK_CONTRACTS asciiLowerCase 0 (\<lambda>k. 0) ! 1) = []"
    by (simp add: MOCK_CONTRACTS_def)
  have trig': "detectedTriggers (createMockContract asciiLowerCase 7 ''CNT-X'' BRAZIL DRAFT 2000000 ''Pumps'')
      = [trigger_t1]"
    by (simp add: createMockContract_fields riskLogic_cases)
  from isHighRisk_iff_detectedTriggers
    [of asciiLowerCase 7 "''CNT-X''" BRAZIL DRAFT 2000000 "''Pumps''" 0 "\<lambda>k. 0"] mem trig trig'
  show ?thesis by simp
qed

text \<open>
  C2. The risk logic computes the two financial triggers and nothing else: \<open>t1\<close>
  (OPEX > 1M) fires exactly for type OPEX with an amount above 1,000,000, \<open>t2\<close>
  (CAPEX > 5M) exactly for type CAPEX with an amount above 5,000,000. For 6,000,000 and
  CAPEX the result is the one trigger \<open>t2\<close> and the contract is high-risk; for 6,000,000
  and OPEX only \<open>t1\<close> fires; for 500,000 and OPEX nothing fires and the contract is not
  high-risk.
\<close>

theorem riskLogic_financial_triggers:
  "set (riskLogic ctype amt) \<subseteq> {trigger_t1, trigger_t2}
   \<and> (trigger_t1 \<in> set (riskLogic ctype amt)) = (ctype = OPEX \<and> amt > 1000000)
   \<and> (trigger_t2 \<in> set (riskLogic ctype amt)) = (ctype = CAPEX \<and> amt > 5000000)
   \<and> distinct (riskLogic ctype amt)
   \<and> riskLogic CAPEX 6000000 = [trigger_t2]
   \<and> detectedTriggers (createMockContract toLowerCase sub i e s 6000000 t) = [trigger_t2]
   \<and> isHighRisk (createMockContract toLowerCase sub i e s 6000000 t)
   \<and> riskLogic OPEX 6000000 = [trigger_t1]
   \<and> riskLogic OPEX 500000 = []
   \<and> detectedTriggers (createMockContract toLowerCase sub i e s 500000 t) = []
   \<and> \<not> isHighRisk (createMockContract toLowerCase sub i e s 500000 t)"
  using trigger_t1_neq_t2
  by (cases ctype) (simp_all add: riskLogic_cases createMockContract_fields)

text \<open>
  C8. The type of a contract made by \<^verbatim>\<open>createMockContract\<close> is derived from its amount:
  CAPEX exactly when the amount exceeds 5,000,000, OPEX otherwise.
\<close>

theorem contractType_derived_from_amount:
  "(contractType (createMockContract toLowerCase sub i e s a t) = CAPEX) = (a > 5000000)
   \<and> (contractType (createMockContract toLowerCase sub i e s a t) = OPEX) = (\<not> a > 5000000)"
  by (simp add: createMockContract_fields)

text \<open>
  C10. A contract made by \<^verbatim>\<open>createMockContract\<close> has at most one detected trigger and is
  high-risk exactly when its amount exceeds 1,000,000: an amount above 1,000,000 and up
  to 5,000,000 fires \<open>t1\<close> (OPEX > 1M) only, an amount above 5,000,000 fires \<open>t2\<close>
  (CAPEX > 5M) only, and every CAPEX contract is high-risk.
\<close>

theorem createMockContract_at_most_one_trigger:
  "length (detectedTriggers (createMockContract toLowerCase sub i e s a t)) \<le> 1
   \<and> isHighRisk (createMockContract toLowerCase sub i e s a t) = (a > 1000000)
   \<and> (1000000 < a \<and> a \<le> 5000000 \<longrightarrow>
        detectedTriggers (createMockContract toLowerCase sub i e s a t) = [trigger_t1])
   \<and> (5000000 < a \<longrightarrow> detectedTriggers (createMockContract toLowerCase sub i e s a t) = [trigger_t2])
   \<and> (contractType (createMockContract toLowerCase sub i e s a t) = CAPEX \<longrightarrow>
        isHighRisk (createMockContract toLowerCase sub i e s a t))"
  by (simp add: createMockContract_fields riskLogic_cases)

theorem createMockContract_at_most_one_trigger_witness:
  "detectedTriggers (createMockContract asciiLowerCase 0 ''CNT-2023-010'' CONGO CHANGES_REQUESTED 5000000
      ''Base Camp Construction'') = [trigger_t1]
   \<and> detectedTriggers (createMockContract asciiLowerCase 0 ''CNT-2023-021'' LONDON PENDING_CEO 8000000
      ''New Office Lease'') = [trigger_t2]
   \<and> isHighRisk (createMockContract asciiLowerCase 0 ''CNT-2023-021'' LONDON PENDING_CEO 8000000
      ''New Office Lease'')
   \<and> \<not> isHighRisk (createMockContract asciiLowerCase 0 ''CNT-2023-019'' LONDON APPROVED 1000000
      ''Global Audit Services'')"
proof -
  have ct: "contractType (createMockContract asciiLowerCase 0 ''CNT-2023-021'' LONDON PENDING_CEO 8000000
      ''New Office Lease'') = CAPEX"
    by (simp add: createMockContract_fields)
  from createMockContract_at_most_one_trigger
         [of asciiLowerCase 0 "''CNT-2023-010''" CONGO CHANGES_REQUESTED 5000000 "''Base Camp Construction''"]
       createMockContract_at_most_one_trigger
         [of asciiLowerCase 0 "''CNT-2023-021''" LONDON PENDING_CEO 8000000 "''New Office Lease''"]
       createMockContract_at_most_one_trigger
         [of asciiLowerCase 0 "''CNT-2023-019''" LONDON APPROVED 1000000 "''Global Audit Services''"]
       ct
  show ?thesis by simp
qed

section \<open>Strings and sorting\<close>




lemma insert_sorted_asc: "insert_sorted (compareDates Asc) x ys = insort_key dateOrZero x ys"
  by (induction ys) (simp_all add: compareDates_def Let_def)

lemma insert_sorted_desc:
  "insert_sorted (compareDates Desc) x ys = insort_key (\<lambda>c. - dateOrZero c) x ys"
  by (induction ys) (simp_all add: compareDates_def Let_def)

lemma array_sort_asc: "array_sort (compareDates Asc) xs = sort_key dateOrZero xs"
  by (induction xs) (simp_all add: array_sort_def insert_sorted_asc)

lemma array_sort_desc: "array_sort (compareDates Desc) xs = sort_key (\<lambda>c. - dateOrZero c) xs"
  by (induction xs) (simp_all add: array_sort_def insert_sorted_desc)


lemma sorted_array_sort_asc:
  "sorted_wrt (\<lambda>a b. dateOrZero a \<le> dateOrZero b) (array_sort (compareDates Asc) xs)"
  using sorted_sort_key [of dateOrZero xs] by (simp add: array_sort_asc sorted_map)

lemma sorted_array_sort_desc:
  "sorted_wrt (\<lambda>a b. dateOrZero b \<le> dateOrZero a) (array_sort (compareDates Desc) xs)"
  using sorted_sort_key [of "\<lambda>c. - dateOrZero c" xs] by (simp add: array_sort_desc sorted_map)

lemma array_sort_stable:
  "filter (\<lambda>c. dateOrZero c = d) (array_sort (compareDates ord) xs) =
     filter (\<lambda>c. dateOrZero c = d) xs"
proof (cases ord)
  case Asc
  then show ?thesis by (simp add: array_sort_asc sort_key_stable)
next
  case Desc
  have "filter (\<lambda>c. - dateOrZero c = - d) (sort_key (\<lambda>c. - dateOrZero c) xs) =
      filter (\<lambda>c. - dateOrZero c = - d) xs"
    by (rule sort_key_stable)
  with Desc show ?thesis by (simp add: array_sort_desc)
qed

lemma toggle_reverses:
  assumes desc: "sorted_wrt (\<lambda>a b. dateOrZero b \<le> dateOrZero a) D"
      and asc: "sorted_wrt (\<lambda>a b. dateOrZero a \<le> dateOrZero b) A"
      and ij: "i < j" "j < length D" "dateOrZero (D ! i) \<noteq> dateOrZero (D ! j)"
      and pos: "i' < length A" "j' < length A" "A ! i' = D ! i" "A ! j' = D ! j"
  shows "j' < i'"
proof (rule ccontr)
  assume "\<not> j' < i'"
  then have le: "i' \<le> j'" by simp
  from desc ij(1,2) have "dateOrZero (D ! j) \<le> dateOrZero (D ! i)"
    by (simp add: sorted_wrt_iff_nth_less)
  with ij(3) have lt: "dateOrZero (D ! j) < dateOrZero (D ! i)" by simp
  have "dateOrZero (A ! i') \<le> dateOrZero (A ! j')"
  proof (cases "i' = j'")
    case True
    then show ?thesis by simp
  next
    case False
    with le have "i' < j'" by simp
    with asc pos(2) show ?thesis by (simp add: sorted_wrt_iff_nth_less)
  qed
  with pos(3,4) lt show False by simp
qed

text \<open>
  The choice of insertion sort does not matter: a permutation of the input that is sorted
  by the comparator and keeps the input order among equal timestamps is the result of
  \<open>array_sort\<close>, whatever algorithm produced it.
\<close>

lemma stable_sort_unique:
  assumes perm: "mset ys = mset xs"
      and sorted: "sorted_wrt (\<lambda>a b. compareDates ord a b \<le> 0) ys"
      and stable: "\<forall>c \<in> set ys. filter (\<lambda>x. dateOrZero c = dateOrZero x) ys =
                     filter (\<lambda>x. dateOrZero c = dateOrZero x) xs"
  shows "array_sort (compareDates ord) xs = ys"
proof (cases ord)
  case Asc
  from sorted Asc have "sorted (map dateOrZero ys)"
    by (simp add: sorted_map compareDates_def Let_def)
  with perm stable show ?thesis
    unfolding Asc array_sort_asc by (intro properties_for_sort_key) auto
next
  case Desc
  from sorted Desc have "sorted (map (\<lambda>c. - dateOrZero c) ys)"
    by (simp add: sorted_map compareDates_def Let_def)
  moreover have "\<forall>c \<in> set ys. filter (\<lambda>x. - dateOrZero c = - dateOrZero x) ys =
                     filter (\<lambda>x. - dateOrZero c = - dateOrZero x) xs"
    using stable by simp
  ultimately show ?thesis
    using perm unfolding Desc array_sort_desc by (intro properties_for_sort_key) auto
qed

lemma dates_reversed:
  "map dateOrZero (array_sort (compareDates Desc) xs) =
     rev (map dateOrZero (array_sort (compareDates Asc) xs))"
proof -
  let ?D = "map dateOrZero (sort_key (\<lambda>c. - dateOrZero c) xs)"
  let ?A = "map dateOrZero (sort_key dateOrZero xs)"
  have sa: "sorted ?A" by (rule sorted_sort_key)
  have "sorted (map (\<lambda>c. - dateOrZero c) (sort_key (\<lambda>c. - dateOrZero c) xs))"
    by (rule sorted_sort_key)
  then have "sorted_wrt (\<lambda>a b. b \<le> a) ?D"
    by (simp add: sorted_wrt_map sorted_map)
  then have "sorted (rev ?D)"
    by (simp add: sorted_wrt_rev)
  moreover have "mset (rev ?D) = mset ?A" by simp
  ultimately have "rev ?D = ?A"
    using sa by (metis properties_for_sort sorted_sort_id)
  then have "?D = rev ?A" by (metis rev_rev_ident)
  then show ?thesis by (simp add: array_sort_asc array_sort_desc)
qed

section \<open>The filtered and sorted view\<close>

lemma applyFilters_filter:
  "applyFilters toLowerCase st cs = filter (keepsContract toLowerCase st) cs"
  unfolding applyFilters_def keepsContract_def Let_def
  by (auto intro!: filter_cong)








subsection \<open>Lower-casing both sides is containment up to letter case\<close>
























lemma applyFilters_sortOrder: "applyFilters toLowerCase (st\<lparr>sortOrder := ord\<rparr>) cs = applyFilters toLowerCase st cs"
  by (simp add: applyFilters_def)

text \<open>
  C4. The filtered sequence is sorted by submission timestamp in the selected direction;
  the sort is stable, in both directions the contracts of one timestamp keep the order
  they had after filtering, which is their order in the collection; and toggling from
  descending to ascending reverses the sequence of timestamps, so that two contracts with
  distinct timestamps, one in front of the other in the descending result, stand in the
  opposite order in the ascending result.
\<close>

theorem filteredContracts_sorted_stable:
  "(sortOrder st = Asc \<longrightarrow>
      sorted_wrt (\<lambda>a b. dateOrZero a \<le> dateOrZero b) (filteredContracts toLowerCase st cs))
   \<and> (sortOrder st = Desc \<longrightarrow>
      sorted_wrt (\<lambda>a b. dateOrZero b \<le> dateOrZero a) (filteredContracts toLowerCase st cs))
   \<and> filter (\<lambda>c. dateOrZero c = d) (filteredContracts toLowerCase st cs) =
       filter (\<lambda>c. dateOrZero c = d) (applyFilters toLowerCase st cs)
   \<and> subseq (applyFilters toLowerCase st cs) cs
   \<and> map dateOrZero (filteredContracts toLowerCase (st\<lparr>sortOrder := Desc\<rparr>) cs) =
       rev (map dateOrZero (filteredContracts toLowerCase (st\<lparr>sortOrder := Asc\<rparr>) cs))
   \<and> (\<forall>i j i' j'.
        i < j \<and> j < length (filteredContracts toLowerCase (st\<lparr>sortOrder := Desc\<rparr>) cs)
        \<and> dateOrZero (filteredContracts toLowerCase (st\<lparr>sortOrder := Desc\<rparr>) cs ! i) \<noteq>
            dateOrZero (filteredContracts toLowerCase (st\<lparr>sortOrder := Desc\<rparr>) cs ! j)
        \<and> i' < length (filteredContracts toLowerCase (st\<lparr>sortOrder := Asc\<rparr>) cs)
        \<and> j' < length (filteredContracts toLowerCase (st\<lparr>sortOrder := Asc\<rparr>) cs)
        \<and> filteredContracts toLowerCase (st\<lparr>sortOrder := Asc\<rparr>) cs ! i' =
            filteredContracts toLowerCase (st\<lparr>sortOrder := Desc\<rparr>) cs ! i
        \<and> filteredContracts toLowerCase (st\<lparr>sortOrder := Asc\<rparr>) cs ! j' =
            filteredContracts toLowerCase (st\<lparr>sortOrder := Desc\<rparr>) cs ! j
        \<longrightarrow> j' < i')"
proof -
  have a: "sortOrder st = Asc \<longrightarrow>
      sorted_wrt (\<lambda>a b. dateOrZero a \<le> dateOrZero b) (filteredContracts toLowerCase st cs)"
    by (simp add: filteredContracts_def sorted_array_sort_asc)
  have b: "sortOrder st = Desc \<longrightarrow>
      sorted_wrt (\<lambda>a b. dateOrZero b \<le> dateOrZero a) (filteredContracts toLowerCase st cs)"
    by (simp add: filteredContracts_def sorted_array_sort_desc)
  have c: "filter (\<lambda>c. dateOrZero c = d) (filteredContracts toLowerCase st cs) =
       filter (\<lambda>c. dateOrZero c = d) (applyFilters toLowerCase st cs)"
    by (simp add: filteredContracts_def array_sort_stable)
  have e: "subseq (applyFilters toLowerCase st cs) cs"
    by (simp add: applyFilters_filter)
  have r: "map dateOrZero (filteredContracts toLowerCase (st\<lparr>sortOrder := Desc\<rparr>) cs) =
       rev (map dateOrZero (filteredContracts toLowerCase (st\<lparr>sortOrder := Asc\<rparr>) cs))"
    by (simp add: filteredContracts_def applyFilters_sortOrder dates_reversed)
  have sd: "sorted_wrt (\<lambda>a b. dateOrZero b \<le> dateOrZero a)
      (filteredContracts toLowerCase (st\<lparr>sortOrder := Desc\<rparr>) cs)"
    by (simp add: filteredContracts_def sorted_array_sort_desc)
  have sa: "sorted_wrt (\<lambda>a b. dateOrZero a \<le> dateOrZero b)
      (filteredContracts toLowerCase (st\<lparr>sortOrder := Asc\<rparr>) cs)"
    by (simp add: filteredContracts_def sorted_array_sort_asc)
  have f: "\<forall>i j i' j'.
        i < j \<and> j < length (filteredContracts toLowerCase (st\<lparr>sortOrder := Desc\<rparr>) cs)
        \<and> dateOrZero (filteredContracts toLowerCase (st\<lparr>sortOrder := Desc\<rparr>) cs ! i) \<noteq>
            dateOrZero (filteredContracts toLowerCase (st\<lparr>sortOrder := Desc\<rparr>) cs ! j)
        \<and> i' < length (filteredContracts toLowerCase (st\<lparr>sortOrder := Asc\<rparr>) cs)
        \<and> j' < length (filteredContracts toLowerCase (st\<lparr>sortOrder := Asc\<rparr>) cs)
        \<and> filteredContracts toLowerCase (st\<lparr>sortOrder := Asc\<rparr>) cs ! i' =
            filteredContracts toLowerCase (st\<lparr>sortOrder := Desc\<rparr>) cs ! i
        \<and> filteredContracts toLowerCase (st\<lparr>sortOrder := Asc\<rparr>) cs ! j' =
            filteredContracts toLowerCase (st\<lparr>sortOrder := Desc\<rparr>) cs ! j
        \<longrightarrow> j' < i'"
    using toggle_reverses [OF sd sa] by blast
  show ?thesis
    apply (rule conjI, rule a)
    apply (rule conjI, rule b)
    apply (rule conjI, rule c)
    apply (rule conjI, rule e)
    apply (rule conjI, rule r)
    apply (rule f)
    done
qed

lemma filteredContracts_desc_sample:
  "filteredContracts asciiLowerCase descState sampleContracts =
     [sampleContract ''CNT-5'' LONDON SUBMITTED 50 (Some 9),
      sampleContract ''CNT-1'' BRAZIL DRAFT 10 (Some 5),
      sampleContract ''CNT-3'' BRAZIL APPROVED 30 (Some 5),
      sampleContract ''CNT-2'' CONGO SUBMITTED 20 (Some 3),
      sampleContract ''CNT-4'' BRAZIL SUBMITTED 40 None]"
  by code_simp

lemma filteredContracts_asc_sample:
  "filteredContracts asciiLowerCase ascState sampleContracts =
     [sampleContract ''CNT-4'' BRAZIL SUBMITTED 40 None,
      sampleContract ''CNT-2'' CONGO SUBMITTED 20 (Some 3),
      sampleContract ''CNT-1'' BRAZIL DRAFT 10 (Some 5),
      sampleContract ''CNT-3'' BRAZIL APPROVED 30 (Some 5),
      sampleContract ''CNT-5'' LONDON SUBMITTED 50 (Some 9)]"
  by code_simp

lemma sample_dates:
  "dateOrZero (sampleContract ''CNT-5'' LONDON SUBMITTED 50 (Some 9)) = 9"
  "dateOrZero (sampleContract ''CNT-1'' BRAZIL DRAFT 10 (Some 5)) = 5"
  "dateOrZero (sampleContract ''CNT-3'' BRAZIL APPROVED 30 (Some 5)) = 5"
  "dateOrZero (sampleContract ''CNT-2'' CONGO SUBMITTED 20 (Some 3)) = 3"
  "dateOrZero (sampleContract ''CNT-4'' BRAZIL SUBMITTED 40 None) = 0"
  by (simp_all add: dateOrZero_def sampleContract_def)

theorem filteredContracts_sorted_stable_witness:
  "sortOrder descState = Desc
   \<and> sorted_wrt (\<lambda>a b. dateOrZero b \<le> dateOrZero a) (filteredContracts asciiLowerCase descState sampleContracts)
   \<and> sortOrder ascState = Asc
   \<and> sorted_wrt (\<lambda>a b. dateOrZero a \<le> dateOrZero b) (filteredContracts asciiLowerCase ascState sampleContracts)
   \<and> filter (\<lambda>c. dateOrZero c = 5) (filteredContracts asciiLowerCase descState sampleContracts) =
       [sampleContract ''CNT-1'' BRAZIL DRAFT 10 (Some 5),
        sampleContract ''CNT-3'' BRAZIL APPROVED 30 (Some 5)]
   \<and> filter (\<lambda>c. dateOrZero c = 5) (filteredContracts asciiLowerCase ascState sampleContracts) =
       [sampleContract ''CNT-1'' BRAZIL DRAFT 10 (Some 5),
        sampleContract ''CNT-3'' BRAZIL APPROVED 30 (Some 5)]
   \<and> map dateOrZero (filteredContracts asciiLowerCase descState sampleContracts) = [9, 5, 5, 3, 0]
   \<and> map dateOrZero (filteredContracts asciiLowerCase ascState sampleContracts) = [0, 3, 5, 5, 9]
   \<and> filteredContracts asciiLowerCase descState sampleContracts ! 0 = filteredContracts asciiLowerCase ascState sampleContracts ! 4
   \<and> filteredContracts asciiLowerCase descState sampleContracts ! 1 = filteredContracts asciiLowerCase ascState sampleContracts ! 2
   \<and> (2::nat) < 4"
proof -
  have st: "descState\<lparr>sortOrder := Desc\<rparr> = descState" "descState\<lparr>sortOrder := Asc\<rparr> = ascState"
    "sortOrder descState = Desc" "sortOrder ascState = Asc"
    by (simp_all add: descState_def ascState_def initialState_def)
  note d = filteredContracts_sorted_stable
    [where st = descState and cs = sampleContracts and d = 5 and toLowerCase = asciiLowerCase]
  note a = filteredContracts_sorted_stable
    [where st = ascState and cs = sampleContracts and d = 5 and toLowerCase = asciiLowerCase]
  from d st(3) have sd: "sorted_wrt (\<lambda>a b. dateOrZero b \<le> dateOrZero a)
      (filteredContracts asciiLowerCase descState sampleContracts)"
    by blast
  from a st(4) have sa: "sorted_wrt (\<lambda>a b. dateOrZero a \<le> dateOrZero b)
      (filteredContracts asciiLowerCase ascState sampleContracts)"
    by blast
  from d have "\<forall>i j i' j'.
        i < j \<and> j < length (filteredContracts asciiLowerCase (descState\<lparr>sortOrder := Desc\<rparr>) sampleContracts)
        \<and> dateOrZero (filteredContracts asciiLowerCase (descState\<lparr>sortOrder := Desc\<rparr>) sampleContracts ! i) \<noteq>
            dateOrZero (filteredContracts asciiLowerCase (descState\<lparr>sortOrder := Desc\<rparr>) sampleContracts ! j)
        \<and> i' < length (filteredContracts asciiLowerCase (descState\<lparr>sortOrder := Asc\<rparr>) sampleContracts)
        \<and> j' < length (filteredContracts asciiLowerCase (descState\<lparr>sortOrder := Asc\<rparr>) sampleContracts)
        \<and> filteredContracts asciiLowerCase (descState\<lparr>sortOrder := Asc\<rparr>) sampleContracts ! i' =
            filteredContracts asciiLowerCase (descState\<lparr>sortOrder := Desc\<rparr>) sampleContracts ! i
        \<and> filteredContracts asciiLowerCase (descState\<lparr>sortOrder := Asc\<rparr>) sampleContracts ! j' =
            filteredContracts asciiLowerCase (descState\<lparr>sortOrder := Desc\<rparr>) sampleContracts ! j
        \<longrightarrow> j' < i'"
    by (elim conjE)
  then have "(0::nat) < 1 \<and> 1 < length (filteredContracts asciiLowerCase descState sampleContracts)
        \<and> dateOrZero (filteredContracts asciiLowerCase descState sampleContracts ! 0) \<noteq>
            dateOrZero (filteredContracts asciiLowerCase descState sampleContracts ! 1)
        \<and> 4 < length (filteredContracts asciiLowerCase ascState sampleContracts)
        \<and> 2 < length (filteredContracts asciiLowerCase ascState sampleContracts)
        \<and> filteredContracts asciiLowerCase ascState sampleContracts ! 4 =
            filteredContracts asciiLowerCase descState sampleContracts ! 0
        \<and> filteredContracts asciiLowerCase ascState sampleContracts ! 2 =
            filteredContracts asciiLowerCase descState sampleContracts ! 1
        \<longrightarrow> (2::nat) < 4"
    unfolding st by blast
  then have rv: "(2::nat) < 4"
    by (simp add: filteredContracts_desc_sample filteredContracts_asc_sample sample_dates)
  show ?thesis
    using sd sa rv st(3,4)
    by (simp add: filteredContracts_desc_sample filteredContracts_asc_sample sample_dates)
qed

section \<open>Metrics\<close>

lemma roundToDouble_exact: "\<bar>x\<bar> \<le> 2 ^ 53 \<Longrightarrow> roundToDouble x = Num x"
  by (simp add: roundToDouble_def)

lemma amountMagnitude_nonneg: "0 \<le> amountMagnitude xs"
  by (induction xs) (simp_all add: amountMagnitude_def)

lemma foldl_addNumber_exact:
  "\<bar>a\<bar> + amountMagnitude xs \<le> 2 ^ 53 \<Longrightarrow>
     foldl (\<lambda>acc c. addNumber acc (amount c)) (Num a) xs = Num (a + sum_list (map amount xs))"
proof (induction xs arbitrary: a)
  case Nil
  then show ?case by simp
next
  case (Cons c xs)
  from Cons.prems have b: "\<bar>a\<bar> + \<bar>amount c\<bar> + amountMagnitude xs \<le> 2 ^ 53"
    by (simp add: amountMagnitude_def)
  note nonneg = amountMagnitude_nonneg [of xs]
  from b nonneg have "\<bar>a + amount c\<bar> \<le> 2 ^ 53" by linarith
  then have step: "addNumber (Num a) (amount c) = Num (a + amount c)"
    by (simp add: roundToDouble_exact)
  from b have "\<bar>a + amount c\<bar> + amountMagnitude xs \<le> 2 ^ 53" by linarith
  then have "foldl (\<lambda>acc c. addNumber acc (amount c)) (Num (a + amount c)) xs =
      Num (a + amount c + sum_list (map amount xs))"
    by (rule Cons.IH)
  with step show ?case by (simp add: add.assoc)
qed

lemma sumAmount_exact:
  "amountMagnitude xs \<le> 2 ^ 53 \<Longrightarrow> sumAmount xs = Num (sum_list (map amount xs))"
  using foldl_addNumber_exact [of 0 xs] by (simp add: sumAmount_def)

lemma amountMagnitude_filter: "amountMagnitude (filter P xs) \<le> amountMagnitude xs"
proof (induction xs)
  case Nil
  then show ?case by simp
next
  case (Cons c xs)
  have "amountMagnitude (c # xs) = \<bar>amount c\<bar> + amountMagnitude xs"
    "amountMagnitude (filter P (c # xs)) =
       (if P c then \<bar>amount c\<bar> + amountMagnitude (filter P xs)
        else amountMagnitude (filter P xs))"
    by (simp_all add: amountMagnitude_def)
  with Cons show ?case by (simp split: if_splits)
qed

lemma entitySum_exact:
  "amountMagnitude xs \<le> 2 ^ 53 \<Longrightarrow>
     sumAmount (filter (\<lambda>c. entity c = e) xs) = Num (entitySum e xs)"
proof -
  assume "amountMagnitude xs \<le> 2 ^ 53"
  with amountMagnitude_filter [of "\<lambda>c. entity c = e" xs]
  have "amountMagnitude (filter (\<lambda>c. entity c = e) xs) \<le> 2 ^ 53" by linarith
  then show ?thesis by (simp add: sumAmount_exact entitySum_def)
qed

lemma entitySum_total:
  "entitySum LONDON cs + entitySum BRAZIL cs + entitySum CONGO cs + entitySum EQUATORIAL_GUINEA cs
     = sum_list (map amount cs)"
proof (induction cs)
  case Nil
  then show ?case by (simp add: entitySum_def)
next
  case (Cons c cs)
  then show ?case by (cases "entity c") (simp_all add: entitySum_def)
qed

lemma kpiBase_all: "selectedEntity st = ''ALL'' \<Longrightarrow> kpiBaseContracts st cs = cs"
  by (simp add: kpiBaseContracts_def)

lemma entityPredicate_entityLabel: "entityPredicate (entityLabel e) c = (entity c = e)"
  by (cases e; cases "entity c") (simp_all add: entityPredicate_def entityLabel_def)

lemma kpiBase_entity:
  "selectedEntity st = entityLabel e \<Longrightarrow> kpiBaseContracts st cs = filter (\<lambda>c. entity c = e) cs"
proof -
  assume sel: "selectedEntity st = entityLabel e"
  have "entityLabel e \<noteq> ''ALL''" by (cases e) (simp_all add: entityLabel_def)
  moreover have "entityPredicate (entityLabel e) = (\<lambda>c. entity c = e)"
    by (rule ext) (rule entityPredicate_entityLabel)
  ultimately show ?thesis using sel by (simp add: kpiBaseContracts_def)
qed

lemma metrics_fields:
  "pending (metrics st cs) = length (filter underReview (kpiBaseContracts st cs))"
  "totalValue (metrics st cs) = sumAmount (kpiBaseContracts st cs)"
  "map snd (spendData (metrics st cs)) =
     [sumAmount (filter (\<lambda>c. entity c = LONDON) (kpiBaseContracts st cs)),
      sumAmount (filter (\<lambda>c. entity c = BRAZIL) (kpiBaseContracts st cs)),
      sumAmount (filter (\<lambda>c. entity c = CONGO) (kpiBaseContracts st cs)),
      sumAmount (filter (\<lambda>c. entity c = EQUATORIAL_GUINEA) (kpiBaseContracts st cs))]"
proof -
  have u: "underReview = (\<lambda>c. status c = SUBMITTED \<or> status c = PENDING_CEO)"
    by (rule ext) (simp add: underReview_def)
  show "pending (metrics st cs) = length (filter underReview (kpiBaseContracts st cs))"
    by (simp add: metrics_def Let_def u)
  show "totalValue (metrics st cs) = sumAmount (kpiBaseContracts st cs)"
    by (simp add: metrics_def Let_def)
  show "map snd (spendData (metrics st cs)) =
     [sumAmount (filter (\<lambda>c. entity c = LONDON) (kpiBaseContracts st cs)),
      sumAmount (filter (\<lambda>c. entity c = BRAZIL) (kpiBaseContracts st cs)),
      sumAmount (filter (\<lambda>c. entity c = CONGO) (kpiBaseContracts st cs)),
      sumAmount (filter (\<lambda>c. entity c = EQUATORIAL_GUINEA) (kpiBaseContracts st cs))]"
    by (simp add: metrics_def Let_def)
qed

lemma metrics_entity_only: "selectedEntity st' = selectedEntity st \<Longrightarrow> metrics st' cs = metrics st cs"
  by (simp add: metrics_def kpiBaseContracts_def)

text \<open>
  C5, as stated, fails: the total is a running floating-point sum. For one London
  contract of 9007199254740992 (\<open>2^53\<close>) and two Brazil contracts of 1, each addition of
  1 to the total is rounded away, so the total stays 9007199254740992, while the
  collection's amounts sum to 9007199254740994 and the per-entity sums are
  9007199254740992 and 2.
\<close>

theorem metrics_over_entity_base_counterexample:
  "selectedEntity initialState = ''ALL''
   \<and> totalValue (metrics initialState roundingSamples) = Num 9007199254740992
   \<and> sum_list (map amount roundingSamples) = 9007199254740994
   \<and> map snd (spendData (metrics initialState roundingSamples)) =
       [Num 9007199254740992, Num 2, Num 0, Num 0]
   \<and> (9007199254740992 :: int) + 2 + 0 + 0 \<noteq> 9007199254740992"
proof -
  have r: "roundToDouble 9007199254740993 = Num 9007199254740992"
    by code_simp
  have k: "kpiBaseContracts initialState roundingSamples = roundingSamples"
    by (simp add: kpiBase_all initialState_def)
  have t: "sumAmount roundingSamples = Num 9007199254740992"
    by (simp add: sumAmount_def roundingSamples_def sampleContract_def roundToDouble_exact r)
  have l: "sumAmount (filter (\<lambda>c. entity c = LONDON) roundingSamples) = Num 9007199254740992"
    "sumAmount (filter (\<lambda>c. entity c = BRAZIL) roundingSamples) = Num 2"
    "sumAmount (filter (\<lambda>c. entity c = CONGO) roundingSamples) = Num 0"
    "sumAmount (filter (\<lambda>c. entity c = EQUATORIAL_GUINEA) roundingSamples) = Num 0"
    by (simp_all add: sumAmount_def roundingSamples_def sampleContract_def roundToDouble_exact)
  have s: "sum_list (map amount roundingSamples) = 9007199254740994"
    by (simp add: roundingSamples_def sampleContract_def)
  have e: "selectedEntity initialState = ''ALL''"
    by (simp add: initialState_def)
  show ?thesis
    by (simp add: metrics_fields k t l s e)
qed

text \<open>
  C5, amended. The metrics depend on the state through the entity selection only (not
  on the status, search or high-risk filter), and the count under review counts the
  contracts of the base whose status is Submitted or PendingCEO. The total value is the
  running floating-point sum of the amounts, in collection order, over the whole
  collection with \<open>ALL\<close> and over the selected entity's contracts otherwise; the spend
  rows are the same sums per entity. When the amounts are whole numbers whose magnitudes
  add up to at most \<open>2^53\<close>, these sums are exact: the total is the sum of the amounts
  (of the collection, or of the selected entity), and the four per-entity sums add up to
  the total over all entities.
\<close>

theorem metrics_over_entity_base:
  "(selectedEntity st' = selectedEntity st \<longrightarrow> metrics st' cs = metrics st cs)
   \<and> pending (metrics st cs) = length (filter underReview (kpiBaseContracts st cs))
   \<and> (selectedEntity st = ''ALL'' \<longrightarrow>
        pending (metrics st cs) = length (filter underReview cs)
        \<and> totalValue (metrics st cs) = sumAmount cs
        \<and> map snd (spendData (metrics st cs)) =
            [sumAmount (filter (\<lambda>c. entity c = LONDON) cs),
             sumAmount (filter (\<lambda>c. entity c = BRAZIL) cs),
             sumAmount (filter (\<lambda>c. entity c = CONGO) cs),
             sumAmount (filter (\<lambda>c. entity c = EQUATORIAL_GUINEA) cs)])
   \<and> (selectedEntity st = entityLabel e \<longrightarrow>
        pending (metrics st cs) = length (filter (\<lambda>c. entity c = e \<and> underReview c) cs)
        \<and> totalValue (metrics st cs) = sumAmount (filter (\<lambda>c. entity c = e) cs))
   \<and> (amountMagnitude cs \<le> 2 ^ 53 \<longrightarrow>
        (selectedEntity st = ''ALL'' \<longrightarrow>
           totalValue (metrics st cs) = Num (sum_list (map amount cs))
           \<and> map snd (spendData (metrics st cs)) =
               [Num (entitySum LONDON cs), Num (entitySum BRAZIL cs), Num (entitySum CONGO cs),
                Num (entitySum EQUATORIAL_GUINEA cs)])
        \<and> (selectedEntity st = entityLabel e \<longrightarrow>
              totalValue (metrics st cs) = Num (entitySum e cs))
        \<and> entitySum LONDON cs + entitySum BRAZIL cs + entitySum CONGO cs
             + entitySum EQUATORIAL_GUINEA cs = sum_list (map amount cs))"
proof -
  have a: "selectedEntity st' = selectedEntity st \<longrightarrow> metrics st' cs = metrics st cs"
    by (rule impI) (rule metrics_entity_only)
  note p = metrics_fields(1) [of st cs]
  have b: "selectedEntity st = ''ALL'' \<longrightarrow>
        pending (metrics st cs) = length (filter underReview cs)
        \<and> totalValue (metrics st cs) = sumAmount cs
        \<and> map snd (spendData (metrics st cs)) =
            [sumAmount (filter (\<lambda>c. entity c = LONDON) cs),
             sumAmount (filter (\<lambda>c. entity c = BRAZIL) cs),
             sumAmount (filter (\<lambda>c. entity c = CONGO) cs),
             sumAmount (filter (\<lambda>c. entity c = EQUATORIAL_GUINEA) cs)]"
  proof
    assume "selectedEntity st = ''ALL''"
    then have "kpiBaseContracts st cs = cs" by (rule kpiBase_all)
    then show "pending (metrics st cs) = length (filter underReview cs)
        \<and> totalValue (metrics st cs) = sumAmount cs
        \<and> map snd (spendData (metrics st cs)) =
            [sumAmount (filter (\<lambda>c. entity c = LONDON) cs),
             sumAmount (filter (\<lambda>c. entity c = BRAZIL) cs),
             sumAmount (filter (\<lambda>c. entity c = CONGO) cs),
             sumAmount (filter (\<lambda>c. entity c = EQUATORIAL_GUINEA) cs)]"
      by (simp only: metrics_fields simp_thms)
  qed
  have c: "selectedEntity st = entityLabel e \<longrightarrow>
        pending (metrics st cs) = length (filter (\<lambda>c. entity c = e \<and> underReview c) cs)
        \<and> totalValue (metrics st cs) = sumAmount (filter (\<lambda>c. entity c = e) cs)"
  proof
    assume "selectedEntity st = entityLabel e"
    then have k: "kpiBaseContracts st cs = filter (\<lambda>c. entity c = e) cs" by (rule kpiBase_entity)
    have "filter underReview (filter (\<lambda>c. entity c = e) cs) =
        filter (\<lambda>c. entity c = e \<and> underReview c) cs"
      by (simp add: conj_commute)
    with k show "pending (metrics st cs) = length (filter (\<lambda>c. entity c = e \<and> underReview c) cs)
        \<and> totalValue (metrics st cs) = sumAmount (filter (\<lambda>c. entity c = e) cs)"
      by (simp only: metrics_fields simp_thms)
  qed
  have d: "amountMagnitude cs \<le> 2 ^ 53 \<longrightarrow>
        (selectedEntity st = ''ALL'' \<longrightarrow>
           totalValue (metrics st cs) = Num (sum_list (map amount cs))
           \<and> map snd (spendData (metrics st cs)) =
               [Num (entitySum LONDON cs), Num (entitySum BRAZIL cs), Num (entitySum CONGO cs),
                Num (entitySum EQUATORIAL_GUINEA cs)])
        \<and> (selectedEntity st = entityLabel e \<longrightarrow>
              totalValue (metrics st cs) = Num (entitySum e cs))
        \<and> entitySum LONDON cs + entitySum BRAZIL cs + entitySum CONGO cs
             + entitySum EQUATORIAL_GUINEA cs = sum_list (map amount cs)"
  proof
    assume bound: "amountMagnitude cs \<le> 2 ^ 53"
    have d1: "selectedEntity st = ''ALL'' \<longrightarrow>
           totalValue (metrics st cs) = Num (sum_list (map amount cs))
           \<and> map snd (spendData (metrics st cs)) =
               [Num (entitySum LONDON cs), Num (entitySum BRAZIL cs), Num (entitySum CONGO cs),
                Num (entitySum EQUATORIAL_GUINEA cs)]"
    proof
      assume "selectedEntity st = ''ALL''"
      with b have "totalValue (metrics st cs) = sumAmount cs"
        "map snd (spendData (metrics st cs)) =
            [sumAmount (filter (\<lambda>c. entity c = LONDON) cs),
             sumAmount (filter (\<lambda>c. entity c = BRAZIL) cs),
             sumAmount (filter (\<lambda>c. entity c = CONGO) cs),
             sumAmount (filter (\<lambda>c. entity c = EQUATORIAL_GUINEA) cs)]"
        by simp_all
      with bound show "totalValue (metrics st cs) = Num (sum_list (map amount cs))
           \<and> map snd (spendData (metrics st cs)) =
               [Num (entitySum LONDON cs), Num (entitySum BRAZIL cs), Num (entitySum CONGO cs),
                Num (entitySum EQUATORIAL_GUINEA cs)]"
        by (simp add: sumAmount_exact entitySum_exact)
    qed
    have d2: "selectedEntity st = entityLabel e \<longrightarrow>
              totalValue (metrics st cs) = Num (entitySum e cs)"
    proof
      assume "selectedEntity st = entityLabel e"
      with c have "totalValue (metrics st cs) = sumAmount (filter (\<lambda>c. entity c = e) cs)"
        by simp
      with bound show "totalValue (metrics st cs) = Num (entitySum e cs)"
        by (simp add: entitySum_exact)
    qed
    from d1 d2 entitySum_total [of cs]
    show "(selectedEntity st = ''ALL'' \<longrightarrow>
           totalValue (metrics st cs) = Num (sum_list (map amount cs))
           \<and> map snd (spendData (metrics st cs)) =
               [Num (entitySum LONDON cs), Num (entitySum BRAZIL cs), Num (entitySum CONGO cs),
                Num (entitySum EQUATORIAL_GUINEA cs)])
        \<and> (selectedEntity st = entityLabel e \<longrightarrow>
              totalValue (metrics st cs) = Num (entitySum e cs))
        \<and> entitySum LONDON cs + entitySum BRAZIL cs + entitySum CONGO cs
             + entitySum EQUATORIAL_GUINEA cs = sum_list (map amount cs)"
      by (intro conjI)
  qed
  show ?thesis
    apply (rule conjI, rule a)
    apply (rule conjI, rule p)
    apply (rule conjI, rule b)
    apply (rule conjI, rule c)
    apply (rule d)
    done
qed

theorem metrics_over_entity_base_witness:
  "metrics reviewState sampleContracts = metrics initialState sampleContracts
   \<and> amountMagnitude sampleContracts = 150
   \<and> totalValue (metrics initialState sampleContracts) = Num 150
   \<and> map snd (spendData (metrics initialState sampleContracts)) = [Num 50, Num 80, Num 20, Num 0]
   \<and> pending (metrics initialState sampleContracts) = 3
   \<and> totalValue (metrics brazilState sampleContracts) = Num 80
   \<and> pending (metrics brazilState sampleContracts) = 1"
proof -
  have s: "selectedEntity reviewState = selectedEntity initialState"
    "selectedEntity initialState = ''ALL''"
    "selectedEntity brazilState = entityLabel BRAZIL"
    by (simp_all add: reviewState_def initialState_def brazilState_def entityLabel_def)
  have v: "sum_list (map amount sampleContracts) = 150"
    "entitySum LONDON sampleContracts = 50" "entitySum BRAZIL sampleContracts = 80"
    "entitySum CONGO sampleContracts = 20" "entitySum EQUATORIAL_GUINEA sampleContracts = 0"
    "length (filter underReview sampleContracts) = 3"
    "length (filter (\<lambda>c. entity c = BRAZIL \<and> underReview c) sampleContracts) = 1"
    "amountMagnitude sampleContracts = 150"
    by (simp_all add: sampleContracts_def sampleContract_def entitySum_def underReview_def
        amountMagnitude_def)
  have bound: "amountMagnitude sampleContracts \<le> 2 ^ 53"
    by (simp add: v)
  note i = metrics_over_entity_base [of reviewState initialState sampleContracts BRAZIL]
  note b = metrics_over_entity_base [of brazilState brazilState sampleContracts BRAZIL]
  from i s(1) have w1: "metrics reviewState sampleContracts = metrics initialState sampleContracts"
    by blast
  from i s(2) have w2: "pending (metrics initialState sampleContracts) =
      length (filter underReview sampleContracts)"
    by blast
  from i s(2) bound have w3: "totalValue (metrics initialState sampleContracts) =
      Num (sum_list (map amount sampleContracts))"
    "map snd (spendData (metrics initialState sampleContracts)) =
      [Num (entitySum LONDON sampleContracts), Num (entitySum BRAZIL sampleContracts),
       Num (entitySum CONGO sampleContracts), Num (entitySum EQUATORIAL_GUINEA sampleContracts)]"
    by blast+
  from b s(3) have w4: "pending (metrics brazilState sampleContracts) =
      length (filter (\<lambda>c. entity c = BRAZIL \<and> underReview c) sampleContracts)"
    by blast
  from b s(3) bound have w5: "totalValue (metrics brazilState sampleContracts) =
      Num (entitySum BRAZIL sampleContracts)"
    by blast
  from w1 w2 w3 w4 w5 show ?thesis by (simp add: v)
qed

lemma statusData_eq:
  "statusData (metrics st cs) =
     filter (\<lambda>d. snd d > 0)
       [(SUBMITTED, countStatus SUBMITTED (kpiBaseContracts st cs)),
        (PENDING_CEO, countStatus PENDING_CEO (kpiBaseContracts st cs)),
        (APPROVED, countStatus APPROVED (kpiBaseContracts st cs)),
        (REJECTED, countStatus REJECTED (kpiBaseContracts st cs))]"
  by (simp add: metrics_def Let_def)

text \<open>
  C6, as stated, fails: the fixture collection holds two Draft and two ChangesRequested
  contracts, and the status chart has no row for either status.
\<close>

theorem statusData_buckets_counterexample:
  "countStatus DRAFT (kpiBaseContracts initialState (MOCK_CONTRACTS asciiLowerCase 0 fixedRandom)) = 2
   \<and> bucketsOf DRAFT (statusData (metrics initialState (MOCK_CONTRACTS asciiLowerCase 0 fixedRandom))) = []
   \<and> countStatus CHANGES_REQUESTED (kpiBaseContracts initialState (MOCK_CONTRACTS asciiLowerCase 0 fixedRandom)) = 2
   \<and> bucketsOf CHANGES_REQUESTED (statusData (metrics initialState (MOCK_CONTRACTS asciiLowerCase 0 fixedRandom))) = []"
  by (simp add: statusData_eq bucketsOf_def countStatus_def kpiBaseContracts_def initialState_def
      MOCK_CONTRACTS_def createMockContract_fields)

text \<open>
  C6, amended. For each of the four statuses Submitted, PendingCEO, Approved and
  Rejected with a non-zero count over the metrics base, the status chart holds exactly
  one row, with that count; no row has a zero count; and there is no row for Draft, for
  ChangesRequested or for a status that no contract of the base has.
\<close>

theorem statusData_buckets:
  "(s \<in> {SUBMITTED, PENDING_CEO, APPROVED, REJECTED}
      \<and> countStatus s (kpiBaseContracts st cs) > 0 \<longrightarrow>
      bucketsOf s (statusData (metrics st cs)) = [(s, countStatus s (kpiBaseContracts st cs))])
   \<and> (\<forall>row \<in> set (statusData (metrics st cs)). snd row > 0)
   \<and> (s \<in> {DRAFT, CHANGES_REQUESTED} \<or> countStatus s (kpiBaseContracts st cs) = 0 \<longrightarrow>
      bucketsOf s (statusData (metrics st cs)) = [])"
  by (cases s) (auto simp: statusData_eq bucketsOf_def)

theorem statusData_buckets_witness:
  "bucketsOf PENDING_CEO (statusData (metrics initialState (MOCK_CONTRACTS asciiLowerCase 0 fixedRandom))) =
     [(PENDING_CEO, 6)]
   \<and> bucketsOf DRAFT (statusData (metrics initialState (MOCK_CONTRACTS asciiLowerCase 0 fixedRandom))) = []
   \<and> statusData (metrics initialState (MOCK_CONTRACTS asciiLowerCase 0 fixedRandom)) =
     [(SUBMITTED, 5), (PENDING_CEO, 6), (APPROVED, 5), (REJECTED, 2)]"
proof -
  have c: "countStatus PENDING_CEO (kpiBaseContracts initialState (MOCK_CONTRACTS asciiLowerCase 0 fixedRandom)) = 6"
    by (simp add: countStatus_def kpiBaseContracts_def initialState_def
      MOCK_CONTRACTS_def createMockContract_fields)
  have d: "statusData (metrics initialState (MOCK_CONTRACTS asciiLowerCase 0 fixedRandom)) =
     [(SUBMITTED, 5), (PENDING_CEO, 6), (APPROVED, 5), (REJECTED, 2)]"
    by (simp add: statusData_eq countStatus_def kpiBaseContracts_def initialState_def
      MOCK_CONTRACTS_def createMockContract_fields)
  from statusData_buckets [of PENDING_CEO initialState "MOCK_CONTRACTS asciiLowerCase 0 fixedRandom"]
       statusData_buckets [of DRAFT initialState "MOCK_CONTRACTS asciiLowerCase 0 fixedRandom"] c d
  show ?thesis by simp
qed

section \<open>Pagination reset\<close>

lemma dispatch_changed:
  "effectDeps (handler ev st) \<noteq> effectDeps st \<Longrightarrow> currentPage (dispatch st ev) = 1"
  by (simp add: dispatch_def paginationEffect_def)

lemma dispatch_fields:
  "selectedEntity (dispatch st ev) = selectedEntity (handler ev st)"
  "selectedStatus (dispatch st ev) = selectedStatus (handler ev st)"
  "searchTerm (dispatch st ev) = searchTerm (handler ev st)"
  "isHighRiskFilter (dispatch st ev) = isHighRiskFilter (handler ev st)"
  "itemsPerPage (dispatch st ev) = itemsPerPage (handler ev st)"
  "sortOrder (dispatch st ev) = sortOrder (handler ev st)"
  by (simp_all add: dispatch_def paginationEffect_def)

text \<open>
  C7. A user action that changes a filter parameter (entity, status, search term,
  high-risk flag) or the page size leaves the current page at 1; changing the page size
  alone does so too; toggling the sort order changes nothing but the sort order, so the
  current page stays.
\<close>

theorem pagination_reset:
  "(selectedEntity (dispatch st ev) \<noteq> selectedEntity st
      \<or> selectedStatus (dispatch st ev) \<noteq> selectedStatus st
      \<or> searchTerm (dispatch st ev) \<noteq> searchTerm st
      \<or> isHighRiskFilter (dispatch st ev) \<noteq> isHighRiskFilter st
      \<or> itemsPerPage (dispatch st ev) \<noteq> itemsPerPage st
      \<longrightarrow> currentPage (dispatch st ev) = 1)
   \<and> (n \<noteq> itemsPerPage st \<longrightarrow>
        dispatch st (ItemsPerPageChange n) = st\<lparr>itemsPerPage := n, currentPage := 1\<rparr>)
   \<and> dispatch st ToggleSortOrder = st\<lparr>sortOrder := (if sortOrder st = Asc then Desc else Asc)\<rparr>
   \<and> currentPage (dispatch st ToggleSortOrder) = currentPage st"
proof -
  have a: "selectedEntity (dispatch st ev) \<noteq> selectedEntity st
      \<or> selectedStatus (dispatch st ev) \<noteq> selectedStatus st
      \<or> searchTerm (dispatch st ev) \<noteq> searchTerm st
      \<or> isHighRiskFilter (dispatch st ev) \<noteq> isHighRiskFilter st
      \<or> itemsPerPage (dispatch st ev) \<noteq> itemsPerPage st
      \<longrightarrow> currentPage (dispatch st ev) = 1"
  proof
    assume "selectedEntity (dispatch st ev) \<noteq> selectedEntity st
      \<or> selectedStatus (dispatch st ev) \<noteq> selectedStatus st
      \<or> searchTerm (dispatch st ev) \<noteq> searchTerm st
      \<or> isHighRiskFilter (dispatch st ev) \<noteq> isHighRiskFilter st
      \<or> itemsPerPage (dispatch st ev) \<noteq> itemsPerPage st"
    then have "effectDeps (handler ev st) \<noteq> effectDeps st"
      by (auto simp: dispatch_fields effectDeps_def)
    then show "currentPage (dispatch st ev) = 1" by (rule dispatch_changed)
  qed
  have b: "n \<noteq> itemsPerPage st \<longrightarrow>
        dispatch st (ItemsPerPageChange n) = st\<lparr>itemsPerPage := n, currentPage := 1\<rparr>"
    by (simp add: dispatch_def paginationEffect_def effectDeps_def)
  have c: "dispatch st ToggleSortOrder = st\<lparr>sortOrder := (if sortOrder st = Asc then Desc else Asc)\<rparr>"
    by (simp add: dispatch_def paginationEffect_def effectDeps_def)
  have d: "currentPage (dispatch st ToggleSortOrder) = currentPage st"
    by (simp add: dispatch_def paginationEffect_def effectDeps_def)
  show ?thesis
    apply (rule conjI, rule a)
    apply (rule conjI, rule b)
    apply (rule conjI, rule c)
    apply (rule d)
    done
qed

theorem pagination_reset_witness:
  "currentPage (dispatch pageThree (SearchChange ''rig'')) = 1
   \<and> currentPage (dispatch pageThree (FlagButtonClick ''Brazil'')) = 1
   \<and> currentPage (dispatch pageThree (KPIClick RISK)) = 1
   \<and> currentPage (dispatch pageThree (PieClick APPROVED)) = 1
   \<and> dispatch pageThree (ItemsPerPageChange 50) = pageThree\<lparr>itemsPerPage := 50, currentPage := 1\<rparr>
   \<and> currentPage (dispatch pageThree ToggleSortOrder) = 3
   \<and> sortOrder (dispatch pageThree ToggleSortOrder) = Asc"
proof -
  have s: "searchTerm (dispatch pageThree (SearchChange ''rig'')) \<noteq> searchTerm pageThree"
    "selectedEntity (dispatch pageThree (FlagButtonClick ''Brazil'')) \<noteq> selectedEntity pageThree"
    "isHighRiskFilter (dispatch pageThree (KPIClick RISK)) \<noteq> isHighRiskFilter pageThree"
    "selectedStatus (dispatch pageThree (PieClick APPROVED)) \<noteq> selectedStatus pageThree"
    "50 \<noteq> itemsPerPage pageThree" "currentPage pageThree = 3" "sortOrder pageThree = Desc"
    by (simp_all add: dispatch_fields pageThree_def initialState_def)
  from pagination_reset [of pageThree "SearchChange ''rig''" 50]
       pagination_reset [of pageThree "FlagButtonClick ''Brazil''" 50]
       pagination_reset [of pageThree "KPIClick RISK" 50]
       pagination_reset [of pageThree "PieClick APPROVED" 50]
       s
  show ?thesis by simp
qed

section \<open>AI text assistant: errors never reach the caller\<close>

text \<open>
  C9. Neither AI operation ever ends with an error. \<^verbatim>\<open>analyzeContractRisks\<close> returns the
  placeholder text when the API key is missing and the fallback text when the call
  throws; \<^verbatim>\<open>refineContractText\<close> returns the input text unchanged when the API key is
  missing or the call throws.
\<close>

theorem ai_operations_never_fail:
  "(\<exists>s. analyzeContractRisks env ai c = Inr s)
   \<and> (getApiKey env = [] \<longrightarrow>
        analyzeContractRisks env ai c =
          Inr ''API Key not configured. Unable to perform AI analysis.'')
   \<and> (getApiKey env \<noteq> [] \<and> ai (getApiKey env) (AnalysisPrompt c) = Inl e \<longrightarrow>
        analyzeContractRisks env ai c =
          Inr ''Error generating AI analysis. Please review manually.'')
   \<and> (\<exists>s. refineContractText env ai txt ctx = Inr s)
   \<and> (getApiKey env = [] \<longrightarrow> refineContractText env ai txt ctx = Inr txt)
   \<and> (ai (getApiKey env) (RefinePrompt txt ctx) = Inl e \<longrightarrow>
        refineContractText env ai txt ctx = Inr txt)"
proof -
  have a: "\<exists>s. analyzeContractRisks env ai c = Inr s"
    by (simp add: analyzeContractRisks_def Let_def tryCatch_def split: sum.split)
  have b: "getApiKey env = [] \<longrightarrow>
        analyzeContractRisks env ai c =
          Inr ''API Key not configured. Unable to perform AI analysis.''"
    by (simp add: analyzeContractRisks_def Let_def)
  have c: "getApiKey env \<noteq> [] \<and> ai (getApiKey env) (AnalysisPrompt c) = Inl e \<longrightarrow>
        analyzeContractRisks env ai c =
          Inr ''Error generating AI analysis. Please review manually.''"
    by (simp add: analyzeContractRisks_def Let_def tryCatch_def)
  have d: "\<exists>s. refineContractText env ai txt ctx = Inr s"
    by (simp add: refineContractText_def Let_def tryCatch_def split: sum.split)
  have e: "getApiKey env = [] \<longrightarrow> refineContractText env ai txt ctx = Inr txt"
    by (simp add: refineContractText_def Let_def)
  have f: "ai (getApiKey env) (RefinePrompt txt ctx) = Inl e \<longrightarrow>
        refineContractText env ai txt ctx = Inr txt"
    by (simp add: refineContractText_def Let_def tryCatch_def)
  show ?thesis
    apply (rule conjI, rule a)
    apply (rule conjI, rule b)
    apply (rule conjI, rule c)
    apply (rule conjI, rule d)
    apply (rule conjI, rule e)
    apply (rule f)
    done
qed

theorem ai_operations_never_fail_witness:
  "analyzeContractRisks None failingAI draftContract =
     Inr ''API Key not configured. Unable to perform AI analysis.''
   \<and> analyzeContractRisks (Some ''secret'') failingAI draftContract =
     Inr ''Error generating AI analysis. Please review manually.''
   \<and> refineContractText None failingAI ''supply of valves'' Scope = Inr ''supply of valves''
   \<and> refineContractText (Some ''secret'') failingAI ''supply of valves'' Scope =
     Inr ''supply of valves''"
proof -
  have k: "getApiKey None = []" "getApiKey (Some ''secret'') = ''secret''" "''secret'' \<noteq> []"
    by (simp_all add: getApiKey_def)
  have f: "failingAI ''secret'' (AnalysisPrompt draftContract) =
      Inl (GeminiError ''503 Service Unavailable'')"
    "failingAI ''secret'' (RefinePrompt ''supply of valves'' Scope) =
      Inl (GeminiError ''503 Service Unavailable'')"
    by (simp_all add: failingAI_def)
  from ai_operations_never_fail [of None failingAI draftContract
         "GeminiError ''503 Service Unavailable''" "''supply of valves''" Scope]
       ai_operations_never_fail [of "Some ''secret''" failingAI draftContract
         "GeminiError ''503 Service Unavailable''" "''supply of valves''" Scope]
       k f
  show ?thesis by simp
qed

end
